theory Spec2Isabelle
  imports Complex_Main
begin

section \<open>Python values\<close>

text \<open>
  The service relays JSON produced by a language model, so the data the handlers see are the
  values that Python's \<^verbatim>\<open>json.loads\<close> can build. A Python float is an IEEE binary64
  number: either one of the three special values or a finite number, which is modelled by
  the rational it denotes (the sign of zero is dropped: \<^verbatim>\<open>round\<close> maps both zeros to
  \<open>0\<close>). A Python \<^verbatim>\<open>str\<close> is a \<open>string\<close> whose characters are read as the code points
  below 256. A \<^verbatim>\<open>dict\<close> with string keys is an association list that is read with
  \<open>map_of\<close>.
\<close>

datatype pyfloat = Finite rat | PosInf | NegInf | NaN

datatype pyval =
    PNone
  | PBool bool
  | PInt int
  | PFloat pyfloat
  | PStr string
  | PList "pyval list"
  | PDict "(string \<times> pyval) list"

text \<open>
  Exceptions that leave a handler. \<open>HTTPException\<close> carries \<^verbatim>\<open>status_code\<close> and
  \<^verbatim>\<open>detail\<close>; \<open>ValidationError\<close> is pydantic's, with the name of the model and the
  fields that were rejected, in declaration order; the others are Python's built-in
  exceptions.
\<close>

datatype exn =
    HTTPException nat string
  | ValidationError string "string list"
  | ValueError
  | TypeError
  | OverflowError
  | KeyError string
  | AttributeError

text \<open>
  Exceptions raised inside the \<^verbatim>\<open>try\<close> block of \<^verbatim>\<open>call_openai_for_json\<close> by the
  provider client or by the JSON decoder. The handlers of that block tell only
  \<^verbatim>\<open>json.JSONDecodeError\<close> from every other subclass of \<^verbatim>\<open>Exception\<close>, and read the
  latter's \<^verbatim>\<open>str(e)\<close>, which is the string carried here.
\<close>

datatype lib_exn = JSONDecodeError string | OtherException string

section \<open>The pydantic models (main.py, lines 27 to 66)\<close>

record JobInfo =
  company :: string
  role_title :: string
  location :: "string option"
  job_description :: string
  job_url :: "string option"

text \<open>
  Two fields are renamed with a prime: \<^verbatim>\<open>text\<close> of \<^verbatim>\<open>ResumeInfo\<close> is \<open>text'\<close>
  (\<open>text\<close> is a keyword of the theory language) and \<^verbatim>\<open>length\<close> of
  \<^verbatim>\<open>ExtrasInfo\<close> is \<open>length'\<close> (\<open>length\<close> is the length of a list).
\<close>

record ResumeInfo =
  name :: string
  text' :: string

record ExtrasInfo =
  tone :: "string option"
  length' :: "string option"
  focus_points :: "string list option"

text \<open>
  \<^verbatim>\<open>ScoreResumeRequest\<close> has the fields \<^verbatim>\<open>job\<close> and \<^verbatim>\<open>resume\<close>;
  \<^verbatim>\<open>GenerateCLRequest\<close> has the same two and \<^verbatim>\<open>extras\<close>, so it is written as the
  extension of the former by that field.
\<close>

record ScoreResumeRequest =
  job :: JobInfo
  resume :: ResumeInfo

record GenerateCLRequest = ScoreResumeRequest +
  extras :: "ExtrasInfo option"

record ScoreResumeResponse =
  match_score :: int
  top_keywords :: "string list"
  missing_or_weak_keywords :: "string list"
  suggested_resume_edits :: string

record GenerateCLResponse =
  cover_letter_text :: string
  summary :: "string option"

text \<open>\<^verbatim>\<open>ExtrasInfo()\<close>: every field at its declared default (lines 41 to 43).\<close>

definition ExtrasInfo_default :: ExtrasInfo where
  "ExtrasInfo_default =
     \<lparr>tone = Some ''professional but conversational'',
      length' = Some ''3 paragraphs'',
      focus_points = None\<rparr>"

subsection \<open>Field validation\<close>

text \<open>
  pydantic validates every field when a model is built. A \<^verbatim>\<open>str\<close> field takes a string
  as it is and rejects \<^verbatim>\<open>None\<close>, a list and a dict. What it does with a bool or a number
  depends on the installed version (version 1 converts a number to its text, version 2
  rejects it), so this conversion is a parameter of the model: \<open>lax v\<close> is the string a
  \<^verbatim>\<open>str\<close> field makes of the scalar \<open>v\<close>, or \<open>None\<close> when it rejects it.
\<close>

type_synonym coercion = "pyval \<Rightarrow> string option"

definition pydantic_v2 :: coercion where
  "pydantic_v2 v = None"

fun validate_str :: "coercion \<Rightarrow> pyval \<Rightarrow> string option" where
  "validate_str lax (PStr s) = Some s"
| "validate_str lax PNone = None"
| "validate_str lax (PList vs) = None"
| "validate_str lax (PDict kvs) = None"
| "validate_str lax v = lax v"

text \<open>\<^verbatim>\<open>Optional[str]\<close>: \<^verbatim>\<open>None\<close> is a value of the field.\<close>

fun validate_optional_str :: "coercion \<Rightarrow> pyval \<Rightarrow> string option option" where
  "validate_optional_str lax PNone = Some None"
| "validate_optional_str lax v = map_option Some (validate_str lax v)"

text \<open>
  \<^verbatim>\<open>List[str]\<close>: a list whose elements all validate as \<^verbatim>\<open>str\<close>, in the same order.
  No other JSON value is a list: \<^verbatim>\<open>None\<close>, scalars, strings and dicts are rejected.
\<close>

fun validate_str_list :: "coercion \<Rightarrow> pyval \<Rightarrow> string list option" where
  "validate_str_list lax (PList vs) = those (map (validate_str lax) vs)"
| "validate_str_list lax v = None"

text \<open>
  Building \<^verbatim>\<open>ScoreResumeResponse\<close> (lines 153 to 158): \<^verbatim>\<open>match_score\<close> is already an
  \<^verbatim>\<open>int\<close>; the other three fields are validated, and every rejected field is reported.
\<close>

definition rejected :: "string \<Rightarrow> 'a option \<Rightarrow> string list" where
  "rejected field r = (case r of None \<Rightarrow> [field] | Some x \<Rightarrow> [])"

definition new_ScoreResumeResponse ::
  "coercion \<Rightarrow> int \<Rightarrow> pyval \<Rightarrow> pyval \<Rightarrow> pyval \<Rightarrow> exn + ScoreResumeResponse" where
  "new_ScoreResumeResponse lax ms tk mk se =
     (case (validate_str_list lax tk, validate_str_list lax mk, validate_str lax se) of
        (Some a, Some b, Some c) \<Rightarrow>
          Inr \<lparr>match_score = ms, top_keywords = a, missing_or_weak_keywords = b,
               suggested_resume_edits = c\<rparr>
      | (a, b, c) \<Rightarrow>
          Inl (ValidationError ''ScoreResumeResponse''
                 (rejected ''top_keywords'' a @ rejected ''missing_or_weak_keywords'' b
                  @ rejected ''suggested_resume_edits'' c)))"

text \<open>Building \<^verbatim>\<open>GenerateCLResponse\<close> (lines 209 to 212).\<close>

definition new_GenerateCLResponse :: "coercion \<Rightarrow> pyval \<Rightarrow> pyval \<Rightarrow> exn + GenerateCLResponse" where
  "new_GenerateCLResponse lax cl sm =
     (case (validate_str lax cl, validate_optional_str lax sm) of
        (Some a, Some b) \<Rightarrow> Inr \<lparr>cover_letter_text = a, summary = b\<rparr>
      | (a, b) \<Rightarrow>
          Inl (ValidationError ''GenerateCLResponse''
                 (rejected ''cover_letter_text'' a @ rejected ''summary'' b)))"

text \<open>
  Reading a JSON object into \<^verbatim>\<open>ExtrasInfo\<close> (lines 40 to 43), as the framework does
  with the \<^verbatim>\<open>extras\<close> member of a request body. A field that the object omits takes
  its declared default; a field that is present is validated, and \<^verbatim>\<open>null\<close> is a value
  of each of the three \<^verbatim>\<open>Optional\<close> fields.
\<close>

definition field_or_default :: "(pyval \<Rightarrow> 'a option) \<Rightarrow> 'a \<Rightarrow> pyval option \<Rightarrow> 'a option" where
  "field_or_default validate dflt member =
     (case member of None \<Rightarrow> Some dflt | Some v \<Rightarrow> validate v)"

fun validate_optional_str_list :: "coercion \<Rightarrow> pyval \<Rightarrow> string list option option" where
  "validate_optional_str_list lax PNone = Some None"
| "validate_optional_str_list lax v = map_option Some (validate_str_list lax v)"

definition parse_ExtrasInfo :: "coercion \<Rightarrow> (string \<times> pyval) list \<Rightarrow> exn + ExtrasInfo" where
  "parse_ExtrasInfo lax kvs =
     (case (field_or_default (validate_optional_str lax) (tone ExtrasInfo_default)
              (map_of kvs ''tone''),
            field_or_default (validate_optional_str lax) (length' ExtrasInfo_default)
              (map_of kvs ''length''),
            field_or_default (validate_optional_str_list lax) (focus_points ExtrasInfo_default)
              (map_of kvs ''focus_points'')) of
        (Some a, Some b, Some c) \<Rightarrow> Inr \<lparr>tone = a, length' = b, focus_points = c\<rparr>
      | (a, b, c) \<Rightarrow>
          Inl (ValidationError ''ExtrasInfo''
                 (rejected ''tone'' a @ rejected ''length'' b @ rejected ''focus_points'' c)))"

section \<open>Python operators on JSON values\<close>

text \<open>\<^verbatim>\<open>sub in s\<close> for two strings: \<open>sub\<close> occurs in \<open>s\<close> as a contiguous piece.\<close>

fun str_contains :: "string \<Rightarrow> string \<Rightarrow> bool" where
  "str_contains sub [] = (sub = [])"
| "str_contains sub (c # cs) = (take (length sub) (c # cs) = sub \<or> str_contains sub cs)"

text \<open>
  \<^verbatim>\<open>key in data\<close> for a string \<open>key\<close>: key membership for a dict, element membership
  for a list, containment for a string, \<^verbatim>\<open>TypeError\<close> for a value that is not iterable.
\<close>

fun py_contains :: "string \<Rightarrow> pyval \<Rightarrow> exn + bool" where
  "py_contains key (PDict kvs) = Inr (map_of kvs key \<noteq> None)"
| "py_contains key (PList vs) = Inr (PStr key \<in> set vs)"
| "py_contains key (PStr s) = Inr (str_contains key s)"
| "py_contains key v = Inl TypeError"

text \<open>\<^verbatim>\<open>data[key]\<close> for a string \<open>key\<close>.\<close>

fun py_getitem :: "pyval \<Rightarrow> string \<Rightarrow> exn + pyval" where
  "py_getitem (PDict kvs) key =
     (case map_of kvs key of None \<Rightarrow> Inl (KeyError key) | Some v \<Rightarrow> Inr v)"
| "py_getitem v key = Inl TypeError"

text \<open>\<^verbatim>\<open>data.get(key, default)\<close>: only a dict has the method.\<close>

fun py_get :: "pyval \<Rightarrow> string \<Rightarrow> pyval \<Rightarrow> exn + pyval" where
  "py_get (PDict kvs) key dflt =
     (case map_of kvs key of None \<Rightarrow> Inr dflt | Some v \<Rightarrow> Inr v)"
| "py_get v key dflt = Inl AttributeError"

text \<open>\<^verbatim>\<open>sep.join(xs)\<close>.\<close>

fun py_join :: "string \<Rightarrow> string list \<Rightarrow> string" where
  "py_join sep [] = []"
| "py_join sep [x] = x"
| "py_join sep (x # y # ys) = x @ sep @ py_join sep (y # ys)"

section \<open>Floats: \<^verbatim>\<open>float(x)\<close> and \<^verbatim>\<open>round(x)\<close>\<close>

text \<open>
  Rounding a rational to the nearest integer, ties to the even one: what \<^verbatim>\<open>round\<close>
  does with a finite float, and what the hardware does with the last bit of a mantissa.
\<close>

definition round_half_even :: "rat \<Rightarrow> int" where
  "round_half_even q =
     (let f = \<lfloor>q\<rfloor>; d = q - of_int f
      in if d < 1 / 2 then f else if 1 / 2 < d then f + 1 else if even f then f else f + 1)"

definition pow2 :: "int \<Rightarrow> rat" where
  "pow2 k = (if 0 \<le> k then 2 ^ nat k else 1 / 2 ^ nat (- k))"

text \<open>The number of binary digits of a positive integer.\<close>

function bit_length :: "int \<Rightarrow> int" where
  "bit_length n = (if n \<le> 0 then 0 else 1 + bit_length (n div 2))"
  by pat_completeness auto
termination
  by (relation "measure nat") auto

declare bit_length.simps [simp del]

text \<open>\<open>floor_log2 q\<close> is the \<open>e\<close> with \<open>2 ^ e \<le> q < 2 ^ (e + 1)\<close>, for a positive \<open>q\<close>.\<close>

definition floor_log2 :: "rat \<Rightarrow> int" where
  "floor_log2 q =
     (let (a, b) = quotient_of q;
          k = bit_length a - bit_length b
      in if pow2 k \<le> q then k else k - 1)"

text \<open>
  The binary64 number nearest to a rational: 53 significant bits, the least exponent of
  the last bit is \<open>-1074\<close> (subnormal numbers), ties go to the even mantissa, and a
  magnitude that rounds to \<open>2 ^ 1024\<close> or more is an infinity.
\<close>

definition nearest_double_pos :: "rat \<Rightarrow> rat option" where
  "nearest_double_pos q =
     (let e = max (floor_log2 q - 52) (- 1074);
          v = of_int (round_half_even (q / pow2 e)) * pow2 e
      in if 2 ^ 1024 \<le> v then None else Some v)"

definition nearest_double :: "rat \<Rightarrow> pyfloat" where
  "nearest_double q =
     (if q = 0 then Finite 0
      else if 0 < q then (case nearest_double_pos q of None \<Rightarrow> PosInf | Some v \<Rightarrow> Finite v)
      else (case nearest_double_pos (- q) of None \<Rightarrow> NegInf | Some v \<Rightarrow> Finite (- v)))"

subsection \<open>\<^verbatim>\<open>float\<close> of a string\<close>

text \<open>
  \<^verbatim>\<open>float(s)\<close> checks the underscores of \<open>s\<close> and removes them, strips white space from
  both ends, and then needs the whole rest to be a decimal literal, an infinity or a NaN.
  An underscore must stand between two digits.
\<close>

definition is_digit :: "char \<Rightarrow> bool" where
  "is_digit c = (48 \<le> (of_char c :: nat) \<and> (of_char c :: nat) \<le> 57)"

definition is_space :: "char \<Rightarrow> bool" where
  "is_space c = ((of_char c :: nat) \<in> set [9, 10, 11, 12, 13, 32, 133, 160])"

fun remove_underscores :: "char option \<Rightarrow> string \<Rightarrow> string option" where
  "remove_underscores prev [] = (if prev = Some CHR ''_'' then None else Some [])"
| "remove_underscores prev (c # cs) =
     (if c = CHR ''_'' then
        (case prev of
           None \<Rightarrow> None
         | Some p \<Rightarrow> if is_digit p then remove_underscores (Some c) cs else None)
      else if prev = Some CHR ''_'' \<and> \<not> is_digit c then None
      else map_option ((#) c) (remove_underscores (Some c) cs))"

definition strip :: "string \<Rightarrow> string" where
  "strip s = rev (dropWhile is_space (rev (dropWhile is_space s)))"

definition lower :: "string \<Rightarrow> string" where
  "lower s =
     map (\<lambda>c. if 65 \<le> (of_char c :: nat) \<and> (of_char c :: nat) \<le> 90
              then char_of ((of_char c :: nat) + 32) else c) s"

definition digits_value :: "string \<Rightarrow> int" where
  "digits_value ds = foldl (\<lambda>n c. 10 * n + (of_char c - 48)) 0 ds"

text \<open>An optional sign: whether it is a minus, and what follows it.\<close>

fun split_sign :: "string \<Rightarrow> bool \<times> string" where
  "split_sign [] = (False, [])"
| "split_sign (c # cs) =
     (if c = CHR ''-'' then (True, cs) else if c = CHR ''+'' then (False, cs)
      else (False, c # cs))"

text \<open>The exponent part of a literal: nothing, or \<open>e\<close>, an optional sign and digits.\<close>

fun parse_exponent :: "string \<Rightarrow> int option" where
  "parse_exponent [] = Some 0"
| "parse_exponent (c # cs) =
     (if c = CHR ''e'' \<or> c = CHR ''E'' then
        (case split_sign cs of
           (neg, ds) \<Rightarrow>
             if ds \<noteq> [] \<and> list_all is_digit ds
             then Some (if neg then - digits_value ds else digits_value ds)
             else None)
      else None)"

text \<open>
  An unsigned decimal literal: digits, an optional point with more digits, at least one
  digit on one side of the point, and the exponent part. The result is its exact value.
\<close>

definition parse_decimal :: "string \<Rightarrow> rat option" where
  "parse_decimal s =
     (let ip = takeWhile is_digit s;
          r = dropWhile is_digit s;
          fp = (case r of [] \<Rightarrow> [] | c # t \<Rightarrow> if c = CHR ''.'' then takeWhile is_digit t else []);
          r' = (case r of [] \<Rightarrow> [] | c # t \<Rightarrow> if c = CHR ''.'' then dropWhile is_digit t else r)
      in if ip = [] \<and> fp = [] then None
         else (case parse_exponent r' of
                 None \<Rightarrow> None
               | Some x \<Rightarrow>
                   Some (of_int (digits_value (ip @ fp)) * (if 0 \<le> x - int (length fp)
                      then 10 ^ nat (x - int (length fp))
                      else 1 / 10 ^ nat (int (length fp) - x)))))"

definition negate :: "pyfloat \<Rightarrow> pyfloat" where
  "negate f = (case f of Finite q \<Rightarrow> Finite (- q) | PosInf \<Rightarrow> NegInf | NegInf \<Rightarrow> PosInf
                | NaN \<Rightarrow> NaN)"

definition float_of_str :: "string \<Rightarrow> exn + pyfloat" where
  "float_of_str s =
     (case remove_underscores None s of
        None \<Rightarrow> Inl ValueError
      | Some t \<Rightarrow>
          (case split_sign (strip t) of
             (neg, u) \<Rightarrow>
               (case (if lower u = ''inf'' \<or> lower u = ''infinity'' then Some PosInf
                      else if lower u = ''nan'' then Some NaN
                      else map_option nearest_double (parse_decimal u)) of
                  None \<Rightarrow> Inl ValueError
                | Some f \<Rightarrow> Inr (if neg then negate f else f))))"

subsection \<open>\<^verbatim>\<open>float\<close> and \<^verbatim>\<open>round\<close> of a value\<close>

text \<open>
  \<^verbatim>\<open>float(v)\<close>: a float is itself, a bool is 1 or 0, an int is the nearest float
  (\<^verbatim>\<open>OverflowError\<close> when there is none), a string is parsed (\<^verbatim>\<open>ValueError\<close> when
  it is not a number), and \<^verbatim>\<open>None\<close>, a list and a dict are a \<^verbatim>\<open>TypeError\<close>.
\<close>

fun py_float :: "pyval \<Rightarrow> exn + pyfloat" where
  "py_float (PFloat f) = Inr f"
| "py_float (PBool b) = Inr (Finite (if b then 1 else 0))"
| "py_float (PInt i) =
     (case nearest_double (of_int i) of Finite q \<Rightarrow> Inr (Finite q) | f \<Rightarrow> Inl OverflowError)"
| "py_float (PStr s) = float_of_str s"
| "py_float v = Inl TypeError"

text \<open>\<^verbatim>\<open>int(round(f))\<close>: \<^verbatim>\<open>round\<close> of a float is already an \<^verbatim>\<open>int\<close>.\<close>

fun py_round :: "pyfloat \<Rightarrow> exn + int" where
  "py_round (Finite q) = Inr (round_half_even q)"
| "py_round NaN = Inl ValueError"
| "py_round f = Inl OverflowError"

section \<open>The gateway: \<^verbatim>\<open>call_openai_for_json\<close> (lines 71 to 101)\<close>

text \<open>
  What the provider's client returns. The gateway reads \<^verbatim>\<open>response.output[0].content[0].text\<close>:
  an output item is a message with a list of content parts or an item of another kind,
  which has no \<^verbatim>\<open>content\<close>; a content part is a piece of text or a part of another kind,
  which has no \<^verbatim>\<open>text\<close>. The field \<^verbatim>\<open>output\<close> is named \<open>output'\<close>, and
  \<open>str_response\<close> is \<^verbatim>\<open>str(response)\<close>.
\<close>

datatype content_part = OutputText string | OtherPart

datatype output_item = Message "content_part list" | OtherItem

record response =
  output' :: "output_item list"
  str_response :: string

text \<open>
  The service's two collaborators: the call \<^verbatim>\<open>client.responses.create(model, input)\<close>
  and \<^verbatim>\<open>json.loads\<close>. Each returns a value or raises.
\<close>

record provider =
  responses_create :: "string \<Rightarrow> string \<Rightarrow> lib_exn + response"
  json_loads :: "string \<Rightarrow> lib_exn + pyval"

text \<open>Lines 83 to 86: the inner \<^verbatim>\<open>try\<close>; \<open>None\<close> when the path raises.\<close>

fun first_text :: "output_item list \<Rightarrow> string option" where
  "first_text (Message (OutputText t # ps) # items) = Some t"
| "first_text items = None"

definition text_output :: "response \<Rightarrow> string" where
  "text_output r = (case first_text (output' r) of Some t \<Rightarrow> t | None \<Rightarrow> str_response r)"

text \<open>Lines 92 to 101: the two \<^verbatim>\<open>except\<close> clauses, in their order.\<close>

definition invalid_json_detail :: string where
  "invalid_json_detail = ''OpenAI did not return valid JSON. Check the prompt or response.''"

fun on_exception :: "lib_exn \<Rightarrow> exn" where
  "on_exception (JSONDecodeError m) = HTTPException 500 invalid_json_detail"
| "on_exception (OtherException m) = HTTPException 500 (''Error while calling OpenAI: '' @ m)"

definition call_openai_for_json :: "provider \<Rightarrow> string \<Rightarrow> exn + pyval" where
  "call_openai_for_json p prompt =
     (case responses_create p ''gpt-4.1-mini'' prompt of
        Inl e \<Rightarrow> Inl (on_exception e)
      | Inr r \<Rightarrow>
          (case json_loads p (text_output r) of
             Inl e \<Rightarrow> Inl (on_exception e)
           | Inr data \<Rightarrow> Inr data))"

section \<open>\<^verbatim>\<open>/score-resume\<close> (lines 106 to 158)\<close>

definition newline :: string where
  "newline = [CHR 0x0A]"

definition score_resume_prompt :: "ScoreResumeRequest \<Rightarrow> string" where
  \<open>score_resume_prompt payload = py_join newline
     ['''',
      ''You are acting as an ATS style resume evaluator.'',
      '''',
      ''Job description:'',
      job_description (job payload),
      '''',
      ''Candidate resume:'',
      text' (resume payload),
      '''',
      ''Tasks:'',
      ''1. Give an overall match score from 0 to 100, where 100 means the resume is an excellent match.'',
      ''2. List the 10 to 15 most important skills, keywords, or phrases from the job description that a hiring manager would expect in a strong resume for this role.'',
      ''3. Identify which of those keywords or skills are missing or only weakly represented in the resume.'',
      ''4. Suggest specific edits to the resume that would improve the match, including examples of bullet point changes or additions.'',
      '''',
      ''Respond in valid JSON only, with this structure:'',
      '''',
      ''{'',
      ''  "match_score": number,'',
      ''  "top_keywords": [ "keyword1", "keyword2", ... ],'',
      ''  "missing_or_weak_keywords": [ "kwA", "kwB", ... ],'',
      ''  "suggested_resume_edits": "string with concrete suggestions"'',
      ''}'',
      '''']\<close>

definition required_keys :: "string list" where
  "required_keys =
     [''match_score'', ''top_keywords'', ''missing_or_weak_keywords'',
      ''suggested_resume_edits'']"

text \<open>Lines 144 to 149: the loop over the required keys stops at the first missing one.\<close>

fun check_keys :: "string list \<Rightarrow> pyval \<Rightarrow> exn + unit" where
  "check_keys [] data = Inr ()"
| "check_keys (key # keys) data =
     (case py_contains key data of
        Inl e \<Rightarrow> Inl e
      | Inr present \<Rightarrow>
          if present then check_keys keys data
          else Inl (HTTPException 500 (''Missing key in OpenAI response: '' @ key)))"

text \<open>Lines 138 to 158: what the handler does with the gateway's value.\<close>

definition score_resume_data :: "coercion \<Rightarrow> pyval \<Rightarrow> exn + ScoreResumeResponse" where
  "score_resume_data lax data =
     (case check_keys required_keys data of
        Inl e \<Rightarrow> Inl e
      | Inr u \<Rightarrow>
     (case py_getitem data ''match_score'' of
        Inl e \<Rightarrow> Inl e
      | Inr v \<Rightarrow>
     (case py_float v of
        Inl e \<Rightarrow> Inl e
      | Inr f \<Rightarrow>
     (case py_round f of
        Inl e \<Rightarrow> Inl e
      | Inr ms \<Rightarrow>
     (case py_get data ''top_keywords'' (PList []) of
        Inl e \<Rightarrow> Inl e
      | Inr tk \<Rightarrow>
     (case py_get data ''missing_or_weak_keywords'' (PList []) of
        Inl e \<Rightarrow> Inl e
      | Inr mk \<Rightarrow>
     (case py_get data ''suggested_resume_edits'' (PStr '''') of
        Inl e \<Rightarrow> Inl e
      | Inr se \<Rightarrow> new_ScoreResumeResponse lax ms tk mk se)))))))"

definition score_resume ::
  "provider \<Rightarrow> coercion \<Rightarrow> ScoreResumeRequest \<Rightarrow> exn + ScoreResumeResponse" where
  "score_resume p lax payload =
     (case call_openai_for_json p (score_resume_prompt payload) of
        Inl e \<Rightarrow> Inl e
      | Inr data \<Rightarrow> score_resume_data lax data)"

section \<open>\<^verbatim>\<open>/generate-cover-letter\<close> (lines 163 to 212)\<close>

text \<open>Line 167: a model instance is true, so only \<^verbatim>\<open>None\<close> is replaced.\<close>

definition extras_or_default :: "GenerateCLRequest \<Rightarrow> ExtrasInfo" where
  "extras_or_default payload =
     (case extras payload of None \<Rightarrow> ExtrasInfo_default | Some e \<Rightarrow> e)"

text \<open>Lines 169 to 171: \<^verbatim>\<open>None\<close> and the empty list are false.\<close>

definition focus_points_text :: "ExtrasInfo \<Rightarrow> string" where
  "focus_points_text e =
     (case focus_points e of
        None \<Rightarrow> ''''
      | Some [] \<Rightarrow> ''''
      | Some (x # xs) \<Rightarrow> ''Focus on these points: '' @ py_join '', '' (x # xs))"

text \<open>How an f-string prints an \<^verbatim>\<open>Optional[str]\<close>, and \<^verbatim>\<open>job.location or "N/A"\<close>.\<close>

definition format_optional :: "string option \<Rightarrow> string" where
  "format_optional x = (case x of None \<Rightarrow> ''None'' | Some s \<Rightarrow> s)"

definition location_or_na :: "string option \<Rightarrow> string" where
  "location_or_na x = (case x of None \<Rightarrow> ''N/A'' | Some s \<Rightarrow> if s = [] then ''N/A'' else s)"

text \<open>
  The prompt (lines 173 to 199) in three pieces: the lines before the guidelines, the
  three guideline lines, and the lines after them.
\<close>

definition prompt_head :: "GenerateCLRequest \<Rightarrow> string list" where
  "prompt_head payload =
     ['''',
      ''You are a job application assistant that writes tailored cover letters.'',
      '''',
      ''Job description:'',
      job_description (job payload),
      '''',
      ''Company: '' @ company (job payload),
      ''Role title: '' @ role_title (job payload),
      ''Location: '' @ location_or_na (location (job payload)),
      '''',
      ''Candidate resume:'',
      text' (resume payload),
      '''',
      ''Write a cover letter with the following guidelines:'']"

definition guidelines :: "ExtrasInfo \<Rightarrow> string list" where
  "guidelines e =
     [''- Tone: '' @ format_optional (tone e),
      ''- Length: '' @ format_optional (length' e),
      ''- '' @ focus_points_text e]"

definition prompt_tail :: "string list" where
  \<open>prompt_tail =
     ['''',
      ''The cover letter should highlight the candidate'' @ [CHR 0x27] @ ''s most relevant experience and skills for this specific role and company. It should sound natural and professional.'',
      '''',
      ''Respond in valid JSON only, with this structure:'',
      '''',
      ''{'',
      ''  "cover_letter_text": "full cover letter text here",'',
      ''  "summary": "one sentence summary of why this candidate is a strong fit"'',
      ''}'',
      '''']\<close>

definition cover_letter_prompt :: "GenerateCLRequest \<Rightarrow> string" where
  "cover_letter_prompt payload =
     py_join newline
       (prompt_head payload @ guidelines (extras_or_default payload) @ prompt_tail)"

text \<open>Lines 203 to 212: what the handler does with the gateway's value.\<close>

definition missing_cover_letter_detail :: string where
  "missing_cover_letter_detail =
     ''Missing '' @ [CHR 0x27] @ ''cover_letter_text'' @ [CHR 0x27] @ '' in OpenAI response''"

definition cover_letter_data :: "coercion \<Rightarrow> pyval \<Rightarrow> exn + GenerateCLResponse" where
  "cover_letter_data lax data =
     (case py_contains ''cover_letter_text'' data of
        Inl e \<Rightarrow> Inl e
      | Inr present \<Rightarrow>
          if \<not> present then Inl (HTTPException 500 missing_cover_letter_detail)
          else
     (case py_get data ''cover_letter_text'' (PStr '''') of
        Inl e \<Rightarrow> Inl e
      | Inr cl \<Rightarrow>
     (case py_get data ''summary'' PNone of
        Inl e \<Rightarrow> Inl e
      | Inr sm \<Rightarrow> new_GenerateCLResponse lax cl sm)))"

definition generate_cover_letter ::
  "provider \<Rightarrow> coercion \<Rightarrow> GenerateCLRequest \<Rightarrow> exn + GenerateCLResponse" where
  "generate_cover_letter p lax payload =
     (case call_openai_for_json p (cover_letter_prompt payload) of
        Inl e \<Rightarrow> Inl e
      | Inr data \<Rightarrow> cover_letter_data lax data)"

section \<open>A stub gateway and example requests\<close>

text \<open>
  A provider that answers every prompt with one message whose text is \<open>t\<close>, and a JSON
  decoder whose outcome on \<open>t\<close> is \<open>r\<close> and that rejects every other text.
\<close>

definition stub_provider :: "string \<Rightarrow> lib_exn + pyval \<Rightarrow> provider" where
  "stub_provider t r =
     \<lparr>responses_create =
        (\<lambda>model input. Inr \<lparr>output' = [Message [OutputText t]], str_response = ''Response()''\<rparr>),
      json_loads = (\<lambda>s. if s = t then r else Inl (JSONDecodeError ''Expecting value''))\<rparr>"

definition example_job :: JobInfo where
  "example_job =
     \<lparr>company = ''Acme'', role_title = ''Engineer'', location = None,
      job_description = ''Python, SQL'', job_url = None\<rparr>"

definition example_resume :: ResumeInfo where
  "example_resume = \<lparr>name = ''A'', text' = ''5 years Python''\<rparr>"

definition example_score_request :: ScoreResumeRequest where
  "example_score_request = \<lparr>job = example_job, resume = example_resume\<rparr>"

definition example_cl_request :: "ExtrasInfo option \<Rightarrow> GenerateCLRequest" where
  "example_cl_request e = \<lparr>job = example_job, resume = example_resume, extras = e\<rparr>"

section \<open>Properties\<close>

subsection \<open>Auxiliary facts\<close>

lemma check_keys_find:
  "check_keys ks (PDict kvs) =
     (case find (\<lambda>k. map_of kvs k = None) ks of
        None \<Rightarrow> Inr ()
      | Some k \<Rightarrow> Inl (HTTPException 500 (''Missing key in OpenAI response: '' @ k)))"
  by (induction ks) auto

lemma find_required_present:
  "(find (\<lambda>k. map_of kvs k = None) required_keys = None) =
     (map_of kvs ''match_score'' \<noteq> None \<and> map_of kvs ''top_keywords'' \<noteq> None \<and>
      map_of kvs ''missing_or_weak_keywords'' \<noteq> None \<and>
      map_of kvs ''suggested_resume_edits'' \<noteq> None)"
  by (auto simp: required_keys_def split: if_splits)

lemma validate_str_list_strings: "validate_str_list lax (PList (map PStr xs)) = Some xs"
  by (induction xs) auto

lemma stub_gateway:
  "call_openai_for_json (stub_provider t r) prompt =
     (case r of Inl e \<Rightarrow> Inl (on_exception e) | Inr v \<Rightarrow> Inr v)"
  by (simp add: call_openai_for_json_def stub_provider_def text_output_def)

lemma check_keys_all_present:
  assumes "map_of kvs ''match_score'' = Some v" "map_of kvs ''top_keywords'' = Some vt"
    "map_of kvs ''missing_or_weak_keywords'' = Some vm"
    "map_of kvs ''suggested_resume_edits'' = Some vs"
  shows "check_keys required_keys (PDict kvs) = Inr ()"
proof -
  have "find (\<lambda>k. map_of kvs k = None) required_keys = None"
    using assms by (simp add: find_required_present)
  then show ?thesis by (simp add: check_keys_find)
qed

lemma score_resume_data_present:
  assumes "map_of kvs ''match_score'' = Some v" "map_of kvs ''top_keywords'' = Some vt"
    "map_of kvs ''missing_or_weak_keywords'' = Some vm"
    "map_of kvs ''suggested_resume_edits'' = Some vs"
  shows "score_resume_data lax (PDict kvs) =
     (case py_float v of
        Inl e \<Rightarrow> Inl e
      | Inr f \<Rightarrow>
          (case py_round f of
             Inl e \<Rightarrow> Inl e
           | Inr ms \<Rightarrow> new_ScoreResumeResponse lax ms vt vm vs))"
  using assms check_keys_all_present [OF assms]
  by (simp add: score_resume_data_def split: sum.splits)

lemma py_round_250_5: "py_round (Finite (501 / 2)) = Inr 250"
  by code_simp

lemma parse_ExtrasInfo_fields:
  assumes "parse_ExtrasInfo lax kvs = Inr e"
  shows "field_or_default (validate_optional_str lax) (Some ''professional but conversational'')
           (map_of kvs ''tone'') = Some (tone e)"
    and "field_or_default (validate_optional_str lax) (Some ''3 paragraphs'')
           (map_of kvs ''length'') = Some (length' e)"
    and "field_or_default (validate_optional_str_list lax) None
           (map_of kvs ''focus_points'') = Some (focus_points e)"
  using assms
  by (auto simp: parse_ExtrasInfo_def ExtrasInfo_default_def split: option.splits)

lemma new_ScoreResumeResponse_cases:
  "new_ScoreResumeResponse lax n vt vm vs =
     (if validate_str_list lax vt \<noteq> None \<and> validate_str_list lax vm \<noteq> None \<and>
         validate_str lax vs \<noteq> None
      then Inr \<lparr>match_score = n, top_keywords = the (validate_str_list lax vt),
                missing_or_weak_keywords = the (validate_str_list lax vm),
                suggested_resume_edits = the (validate_str lax vs)\<rparr>
      else Inl (ValidationError ''ScoreResumeResponse''
             (rejected ''top_keywords'' (validate_str_list lax vt)
              @ rejected ''missing_or_weak_keywords'' (validate_str_list lax vm)
              @ rejected ''suggested_resume_edits'' (validate_str lax vs))))"
  by (auto simp: new_ScoreResumeResponse_def rejected_def split: option.splits)

lemma py_float_80: "py_float (PInt 80) = Inr (Finite 80)"
  by code_simp

lemma py_round_80: "py_round (Finite 80) = Inr 80"
  by code_simp

lemma call_openai_for_json_outcomes:
  "(\<exists>v. call_openai_for_json p prompt = Inr v) \<or>
   call_openai_for_json p prompt = Inl (HTTPException 500 invalid_json_detail) \<or>
   (\<exists>m. call_openai_for_json p prompt =
      Inl (HTTPException 500 (''Error while calling OpenAI: '' @ m)))"
proof -
  have "on_exception e = HTTPException 500 invalid_json_detail \<or>
      (\<exists>m. on_exception e = HTTPException 500 (''Error while calling OpenAI: '' @ m))" for e
    by (cases e) auto
  then show ?thesis
    unfolding call_openai_for_json_def
    by (auto split: sum.splits)
qed

subsection \<open>The score-resume handler\<close>

text \<open>
  Claim C1. When the gateway's mapping lacks one or more of the four required keys, the
  handler fails with \<^verbatim>\<open>HTTPException(500)\<close> whose detail names the first key of
  \<open>required_keys\<close> that the mapping does not have; when exactly one key is missing, the
  detail names that key.
\<close>

theorem score_resume_missing_key:
  assumes "call_openai_for_json p (score_resume_prompt payload) = Inr (PDict kvs)"
    and "\<exists>k \<in> set required_keys. map_of kvs k = None"
  shows "(\<exists>k. find (\<lambda>k. map_of kvs k = None) required_keys = Some k \<and>
            score_resume p lax payload =
              Inl (HTTPException 500 (''Missing key in OpenAI response: '' @ k))) \<and>
         (\<forall>k0 \<in> set required_keys.
            (\<forall>k \<in> set required_keys. (map_of kvs k = None) = (k = k0)) \<longrightarrow>
            score_resume p lax payload =
              Inl (HTTPException 500 (''Missing key in OpenAI response: '' @ k0)))"
proof -
  obtain k where k: "find (\<lambda>k. map_of kvs k = None) required_keys = Some k"
    using assms(2) by (cases "find (\<lambda>k. map_of kvs k = None) required_keys")
      (auto simp: find_None_iff)
  have err: "score_resume p lax payload =
      Inl (HTTPException 500 (''Missing key in OpenAI response: '' @ k))"
    using assms(1) k by (simp add: score_resume_def score_resume_data_def check_keys_find)
  have "k = k0" if "k0 \<in> set required_keys"
    and "\<forall>k \<in> set required_keys. (map_of kvs k = None) = (k = k0)" for k0
  proof -
    from k have "k \<in> set required_keys" "map_of kvs k = None"
      by (auto simp: find_Some_iff)
    with that(2) show ?thesis by blast
  qed
  with k err show ?thesis by blast
qed

theorem score_resume_missing_key_witness:
  "score_resume
     (stub_provider ''{\"match_score\": 70, \"missing_or_weak_keywords\": []}''
        (Inr (PDict [(''match_score'', PInt 70), (''missing_or_weak_keywords'', PList [])])))
     pydantic_v2 example_score_request =
   Inl (HTTPException 500 ''Missing key in OpenAI response: top_keywords'')"
  using score_resume_missing_key
    [of "stub_provider ''{\"match_score\": 70, \"missing_or_weak_keywords\": []}''
        (Inr (PDict [(''match_score'', PInt 70), (''missing_or_weak_keywords'', PList [])]))"
      example_score_request
      "[(''match_score'', PInt 70), (''missing_or_weak_keywords'', PList [])]" pydantic_v2]
  by (simp add: stub_gateway required_keys_def)

text \<open>
  Claim C2, as stated, says that the handler returns a result for every mapping that has
  the four keys and a numeric \<^verbatim>\<open>match_score\<close>. It does not: \<^verbatim>\<open>json.loads\<close> reads the
  number \<^verbatim>\<open>1e999\<close> as the float infinity, \<^verbatim>\<open>float\<close> keeps it, and \<^verbatim>\<open>round\<close> raises
  \<^verbatim>\<open>OverflowError\<close>, which nothing catches.
\<close>

theorem infinite_score_counterexample:
  "score_resume
     (stub_provider ''{\"match_score\": 1e999}''
        (Inr (PDict [(''match_score'', PFloat PosInf),
                     (''top_keywords'', PList [PStr ''Python'', PStr ''SQL'']),
                     (''missing_or_weak_keywords'', PList [PStr ''SQL'']),
                     (''suggested_resume_edits'', PStr ''Add SQL examples.'')])))
     pydantic_v2 example_score_request =
   Inl OverflowError"
  by (simp add: score_resume_def stub_gateway score_resume_data_def required_keys_def)

text \<open>
  Claim C2, amended. When the mapping has the four keys, \<^verbatim>\<open>float\<close> and \<^verbatim>\<open>round\<close> accept
  the value of \<^verbatim>\<open>match_score\<close> (it is, or is the text of, a number that is neither an
  infinity nor a NaN), the two keyword values are lists of strings and the suggested edits
  are a string, the handler returns the result whose \<^verbatim>\<open>match_score\<close> is
  \<^verbatim>\<open>round(float(value))\<close>, whatever its size, with the two lists as they are. The
  witness has the score 250.5, which becomes 250.
\<close>

theorem score_resume_result:
  assumes "call_openai_for_json p (score_resume_prompt payload) = Inr (PDict kvs)"
    and "map_of kvs ''match_score'' = Some v"
    and "map_of kvs ''top_keywords'' = Some (PList (map PStr tk))"
    and "map_of kvs ''missing_or_weak_keywords'' = Some (PList (map PStr mk))"
    and "map_of kvs ''suggested_resume_edits'' = Some (PStr se)"
    and "py_float v = Inr f" and "py_round f = Inr n"
  shows "score_resume p lax payload =
     Inr \<lparr>match_score = n, top_keywords = tk, missing_or_weak_keywords = mk,
          suggested_resume_edits = se\<rparr>"
  using assms(1,6,7) score_resume_data_present [OF assms(2-5), of lax]
  by (simp add: score_resume_def new_ScoreResumeResponse_def validate_str_list_strings
      del: validate_str_list.simps)

theorem score_resume_result_witness:
  "score_resume
     (stub_provider ''{}''
        (Inr (PDict [(''match_score'', PFloat (Finite (501 / 2))),
                     (''top_keywords'', PList (map PStr [''Python'', ''SQL''])),
                     (''missing_or_weak_keywords'', PList (map PStr [''SQL''])),
                     (''suggested_resume_edits'', PStr ''Add SQL examples.'')])))
     pydantic_v2 example_score_request =
   Inr \<lparr>match_score = 250, top_keywords = [''Python'', ''SQL''],
        missing_or_weak_keywords = [''SQL''],
        suggested_resume_edits = ''Add SQL examples.''\<rparr>"
  using score_resume_result
    [of "stub_provider ''{}''
        (Inr (PDict [(''match_score'', PFloat (Finite (501 / 2))),
                     (''top_keywords'', PList (map PStr [''Python'', ''SQL''])),
                     (''missing_or_weak_keywords'', PList (map PStr [''SQL''])),
                     (''suggested_resume_edits'', PStr ''Add SQL examples.'')]))"
      example_score_request
      "[(''match_score'', PFloat (Finite (501 / 2))),
        (''top_keywords'', PList (map PStr [''Python'', ''SQL''])),
        (''missing_or_weak_keywords'', PList (map PStr [''SQL''])),
        (''suggested_resume_edits'', PStr ''Add SQL examples.'')]"
      "PFloat (Finite (501 / 2))" "[''Python'', ''SQL'']" "[''SQL'']" "''Add SQL examples.''"
      "Finite (501 / 2)" 250 pydantic_v2]
  by (simp add: stub_gateway py_round_250_5 del: py_round.simps)

subsection \<open>The gateway\<close>



text \<open>
  Claim C4. The gateway returns whatever \<^verbatim>\<open>json.loads\<close> returns. On the provider
  text \<^verbatim>\<open>[1, 2]\<close>, which is valid JSON, it returns a list: neither a mapping nor one
  of the two errors.
\<close>

theorem call_openai_for_json_returns_list:
  "call_openai_for_json (stub_provider ''[1, 2]'' (Inr (PList [PInt 1, PInt 2]))) prompt =
     Inr (PList [PInt 1, PInt 2])"
  by (simp add: stub_gateway)

subsection \<open>The cover-letter handler\<close>

text \<open>
  Claim C5. When a request omits \<^verbatim>\<open>extras\<close>, the three guideline lines of the prompt
  are the tone line with ``professional but conversational'', the length line with
  ``3 paragraphs'', and a third line whose focus clause is empty.
\<close>

theorem default_extras_prompt:
  assumes "extras payload = None"
  shows "cover_letter_prompt payload =
     py_join newline
       (prompt_head payload
        @ [''- Tone: professional but conversational'', ''- Length: 3 paragraphs'', ''- '']
        @ prompt_tail) \<and>
     focus_points_text (extras_or_default payload) = ''''"
  using assms
  by (simp add: cover_letter_prompt_def extras_or_default_def ExtrasInfo_default_def
      guidelines_def format_optional_def focus_points_text_def)

theorem default_extras_prompt_witness:
  "extras (example_cl_request None) = None \<and>
   cover_letter_prompt (example_cl_request None) =
     py_join newline
       (prompt_head (example_cl_request None)
        @ [''- Tone: professional but conversational'', ''- Length: 3 paragraphs'', ''- '']
        @ prompt_tail) \<and>
   focus_points_text (extras_or_default (example_cl_request None)) = ''''"
proof -
  have h: "extras (example_cl_request None) = None"
    by (simp add: example_cl_request_def)
  show ?thesis
    using h default_extras_prompt [OF h] by simp
qed

text \<open>
  Claim C6. For a non-empty list of focus points the clause is
  ``Focus on these points: '' followed by the points joined with a comma and a space, in
  the order of the list; for three points \<open>a\<close>, \<open>b\<close>, \<open>c\<close> that is
  ``Focus on these points: a, b, c''. For \<^verbatim>\<open>None\<close> and for the empty list the clause
  is empty, and so it is when the request's \<^verbatim>\<open>extras\<close> object omits the field or
  gives it as \<^verbatim>\<open>null\<close> or \<^verbatim>\<open>[]\<close>. The clause is what follows the dash on the third
  guideline line.
\<close>

theorem focus_clause:
  "(focus_points e = Some [a, b, c] \<longrightarrow>
      focus_points_text e = ''Focus on these points: '' @ a @ '', '' @ b @ '', '' @ c) \<and>
   (focus_points e = Some (x # xs) \<longrightarrow>
      focus_points_text e = ''Focus on these points: '' @ py_join '', '' (x # xs)) \<and>
   (focus_points e = None \<or> focus_points e = Some [] \<longrightarrow> focus_points_text e = '''') \<and>
   (parse_ExtrasInfo lax kvs = Inr e \<and>
    (map_of kvs ''focus_points'' = None \<or> map_of kvs ''focus_points'' = Some PNone \<or>
     map_of kvs ''focus_points'' = Some (PList [])) \<longrightarrow> focus_points_text e = '''') \<and>
   guidelines e ! 2 = ''- '' @ focus_points_text e"
proof -
  have "focus_points_text e = ''''"
    if "parse_ExtrasInfo lax kvs = Inr e"
      and "map_of kvs ''focus_points'' = None \<or> map_of kvs ''focus_points'' = Some PNone \<or>
        map_of kvs ''focus_points'' = Some (PList [])"
  proof -
    have "focus_points e = None \<or> focus_points e = Some []"
      using parse_ExtrasInfo_fields(3) [OF that(1)] that(2)
      by (auto simp: field_or_default_def)
    then show ?thesis by (auto simp: focus_points_text_def)
  qed
  then show ?thesis
    by (auto simp: focus_points_text_def guidelines_def)
qed

theorem focus_clause_witness:
  "focus_points_text
     \<lparr>tone = None, length' = None, focus_points = Some [''Python'', ''SQL'', ''teamwork'']\<rparr> =
     ''Focus on these points: Python, SQL, teamwork'' \<and>
   focus_points_text \<lparr>tone = None, length' = None, focus_points = Some []\<rparr> = ''''"
  using focus_clause
    [of "\<lparr>tone = None, length' = None, focus_points = Some [''Python'', ''SQL'', ''teamwork'']\<rparr>"
      "''Python''" "''SQL''" "''teamwork''"]
    focus_clause [of "\<lparr>tone = None, length' = None, focus_points = Some []\<rparr>"]
  by simp

text \<open>
  Claim C8. The cover-letter handler raises \<^verbatim>\<open>HTTPException(500)\<close> with the detail
  that names \<^verbatim>\<open>cover_letter_text\<close> exactly when the mapping does not have that key.
  When it has the key and \<^verbatim>\<open>summary\<close> is absent or \<^verbatim>\<open>null\<close>, every result the
  handler returns has no summary, and it does return one when the cover letter text is a
  string.
\<close>

theorem cover_letter_text_required:
  assumes "call_openai_for_json p (cover_letter_prompt payload) = Inr (PDict kvs)"
  shows "((generate_cover_letter p lax payload =
             Inl (HTTPException 500
                    (''Missing '' @ [CHR 0x27] @ ''cover_letter_text'' @ [CHR 0x27]
                     @ '' in OpenAI response''))) =
          (map_of kvs ''cover_letter_text'' = None)) \<and>
         (map_of kvs ''cover_letter_text'' \<noteq> None \<and>
          (map_of kvs ''summary'' = None \<or> map_of kvs ''summary'' = Some PNone) \<longrightarrow>
            (\<forall>r. generate_cover_letter p lax payload = Inr r \<longrightarrow> summary r = None) \<and>
            (\<forall>s. map_of kvs ''cover_letter_text'' = Some (PStr s) \<longrightarrow>
               generate_cover_letter p lax payload =
                 Inr \<lparr>cover_letter_text = s, summary = None\<rparr>))"
proof -
  have eq: "generate_cover_letter p lax payload = cover_letter_data lax (PDict kvs)"
    using assms by (simp add: generate_cover_letter_def)
  show ?thesis
    unfolding eq
    by (auto simp: cover_letter_data_def missing_cover_letter_detail_def
        new_GenerateCLResponse_def rejected_def split: option.splits)
qed

theorem cover_letter_text_required_witness:
  "generate_cover_letter
     (stub_provider ''{}'' (Inr (PDict [(''cover_letter_text'', PStr ''Dear Acme,''),
                                       (''summary'', PNone)])))
     pydantic_v2 (example_cl_request None) =
   Inr \<lparr>cover_letter_text = ''Dear Acme,'', summary = None\<rparr>"
  using cover_letter_text_required
    [of "stub_provider ''{}'' (Inr (PDict [(''cover_letter_text'', PStr ''Dear Acme,''),
                                       (''summary'', PNone)]))"
      "example_cl_request None"
      "[(''cover_letter_text'', PStr ''Dear Acme,''), (''summary'', PNone)]" pydantic_v2]
  by (simp add: stub_gateway)

text \<open>
  Claim C10. When the \<^verbatim>\<open>extras\<close> object of a request gives \<^verbatim>\<open>tone\<close> as \<^verbatim>\<open>null\<close>, the
  parsed field is \<^verbatim>\<open>None\<close> and the tone line of the prompt is ``- Tone: None''; the same
  holds for \<^verbatim>\<open>length\<close>. The default is used only for a field that the object omits.
\<close>

theorem null_tone_is_not_defaulted:
  assumes "parse_ExtrasInfo lax kvs = Inr e" and "extras payload = Some e"
  shows "(map_of kvs ''tone'' = Some PNone \<longrightarrow>
            cover_letter_prompt payload =
              py_join newline
                (prompt_head payload
                 @ [''- Tone: None'', ''- Length: '' @ format_optional (length' e),
                    ''- '' @ focus_points_text e]
                 @ prompt_tail)) \<and>
         (map_of kvs ''length'' = Some PNone \<longrightarrow>
            cover_letter_prompt payload =
              py_join newline
                (prompt_head payload
                 @ [''- Tone: '' @ format_optional (tone e), ''- Length: None'',
                    ''- '' @ focus_points_text e]
                 @ prompt_tail)) \<and>
         (map_of kvs ''tone'' = None \<longrightarrow>
            guidelines (extras_or_default payload) ! 0 =
              ''- Tone: professional but conversational'') \<and>
         (map_of kvs ''length'' = None \<longrightarrow>
            guidelines (extras_or_default payload) ! 1 = ''- Length: 3 paragraphs'')"
proof -
  have ex: "extras_or_default payload = e"
    using assms(2) by (simp add: extras_or_default_def)
  have t: "tone e = None" if "map_of kvs ''tone'' = Some PNone"
    using parse_ExtrasInfo_fields(1) [OF assms(1)] that by (simp add: field_or_default_def)
  have l: "length' e = None" if "map_of kvs ''length'' = Some PNone"
    using parse_ExtrasInfo_fields(2) [OF assms(1)] that by (simp add: field_or_default_def)
  have t': "tone e = Some ''professional but conversational''" if "map_of kvs ''tone'' = None"
    using parse_ExtrasInfo_fields(1) [OF assms(1)] that by (simp add: field_or_default_def)
  have l': "length' e = Some ''3 paragraphs''" if "map_of kvs ''length'' = None"
    using parse_ExtrasInfo_fields(2) [OF assms(1)] that by (simp add: field_or_default_def)
  show ?thesis
    using t l t' l'
    by (auto simp: cover_letter_prompt_def ex guidelines_def format_optional_def)
qed

theorem null_tone_is_not_defaulted_witness:
  "parse_ExtrasInfo pydantic_v2 [(''tone'', PNone)] =
     Inr \<lparr>tone = None, length' = Some ''3 paragraphs'', focus_points = None\<rparr> \<and>
   cover_letter_prompt
     (example_cl_request
        (Some \<lparr>tone = None, length' = Some ''3 paragraphs'', focus_points = None\<rparr>)) =
     py_join newline
       (prompt_head
          (example_cl_request
             (Some \<lparr>tone = None, length' = Some ''3 paragraphs'', focus_points = None\<rparr>))
        @ [''- Tone: None'', ''- Length: 3 paragraphs'', ''- ''] @ prompt_tail)"
proof -
  have h: "parse_ExtrasInfo pydantic_v2 [(''tone'', PNone)] =
     Inr \<lparr>tone = None, length' = Some ''3 paragraphs'', focus_points = None\<rparr>"
    by (simp add: parse_ExtrasInfo_def field_or_default_def ExtrasInfo_default_def)
  have x: "extras (example_cl_request
        (Some \<lparr>tone = None, length' = Some ''3 paragraphs'', focus_points = None\<rparr>)) =
      Some \<lparr>tone = None, length' = Some ''3 paragraphs'', focus_points = None\<rparr>"
    by (simp add: example_cl_request_def)
  show ?thesis
    using h null_tone_is_not_defaulted [OF h x]
    by (simp add: format_optional_def focus_points_text_def)
qed

subsection \<open>Null values in the gateway's mapping\<close>

text \<open>
  Claim C7, as stated, says that a \<^verbatim>\<open>null\<close> value of \<^verbatim>\<open>top_keywords\<close>,
  \<^verbatim>\<open>missing_or_weak_keywords\<close> or \<^verbatim>\<open>suggested_resume_edits\<close> is replaced by an empty
  list or string. It is not: \<^verbatim>\<open>data.get(key, default)\<close> returns the default only for an
  absent key, and the response model's fields are not optional. With \<^verbatim>\<open>top_keywords\<close>
  \<^verbatim>\<open>null\<close> the handler raises a validation error.
\<close>

theorem null_field_counterexample:
  "score_resume
     (stub_provider ''{}''
        (Inr (PDict [(''match_score'', PInt 80), (''top_keywords'', PNone),
                     (''missing_or_weak_keywords'', PList []),
                     (''suggested_resume_edits'', PStr ''ok'')])))
     pydantic_v2 example_score_request =
   Inl (ValidationError ''ScoreResumeResponse'' [''top_keywords''])"
  using py_float_80 py_round_80
  by (simp add: score_resume_def stub_gateway score_resume_data_def required_keys_def
      new_ScoreResumeResponse_def rejected_def del: py_float.simps py_round.simps)

text \<open>
  Claim C7, amended. When the four keys are present and one of those three values is
  \<^verbatim>\<open>null\<close>, the handler never returns a result; when \<^verbatim>\<open>match_score\<close> coerces, what it
  raises is the validation error of \<^verbatim>\<open>ScoreResumeResponse\<close>, which names every field
  whose value is \<^verbatim>\<open>null\<close>.
\<close>

theorem null_field_is_rejected:
  assumes "call_openai_for_json p (score_resume_prompt payload) = Inr (PDict kvs)"
    and "map_of kvs ''match_score'' = Some v"
    and "map_of kvs ''top_keywords'' = Some vt"
    and "map_of kvs ''missing_or_weak_keywords'' = Some vm"
    and "map_of kvs ''suggested_resume_edits'' = Some vs"
    and "vt = PNone \<or> vm = PNone \<or> vs = PNone"
  shows "(\<forall>r. score_resume p lax payload \<noteq> Inr r) \<and>
         (py_float v = Inr f \<and> py_round f = Inr n \<longrightarrow>
            (\<exists>fields. score_resume p lax payload =
                 Inl (ValidationError ''ScoreResumeResponse'' fields) \<and>
               (vt = PNone \<longrightarrow> ''top_keywords'' \<in> set fields) \<and>
               (vm = PNone \<longrightarrow> ''missing_or_weak_keywords'' \<in> set fields) \<and>
               (vs = PNone \<longrightarrow> ''suggested_resume_edits'' \<in> set fields)))"
proof -
  have bad: "\<not> (validate_str_list lax vt \<noteq> None \<and> validate_str_list lax vm \<noteq> None \<and>
      validate_str lax vs \<noteq> None)"
    using assms(6) by auto
  have eq: "score_resume p lax payload =
     (case py_float v of
        Inl e \<Rightarrow> Inl e
      | Inr f \<Rightarrow>
          (case py_round f of
             Inl e \<Rightarrow> Inl e
           | Inr ms \<Rightarrow> new_ScoreResumeResponse lax ms vt vm vs))"
    using assms(1) score_resume_data_present [OF assms(2-5), of lax]
    by (simp add: score_resume_def)
  have new: "new_ScoreResumeResponse lax ms vt vm vs =
      Inl (ValidationError ''ScoreResumeResponse''
             (rejected ''top_keywords'' (validate_str_list lax vt)
              @ rejected ''missing_or_weak_keywords'' (validate_str_list lax vm)
              @ rejected ''suggested_resume_edits'' (validate_str lax vs)))" for ms
    using bad by (simp only: new_ScoreResumeResponse_cases if_False)
  have never: "score_resume p lax payload \<noteq> Inr r" for r
    by (simp add: eq new split: sum.splits)
  have named: "\<exists>fields. score_resume p lax payload =
                 Inl (ValidationError ''ScoreResumeResponse'' fields) \<and>
               (vt = PNone \<longrightarrow> ''top_keywords'' \<in> set fields) \<and>
               (vm = PNone \<longrightarrow> ''missing_or_weak_keywords'' \<in> set fields) \<and>
               (vs = PNone \<longrightarrow> ''suggested_resume_edits'' \<in> set fields)"
    if "py_float v = Inr f" "py_round f = Inr n"
    using that by (auto simp: eq new rejected_def)
  from never named show ?thesis by blast
qed

theorem null_field_is_rejected_witness:
  "score_resume
     (stub_provider ''{}''
        (Inr (PDict [(''match_score'', PInt 80), (''top_keywords'', PList []),
                     (''missing_or_weak_keywords'', PList []),
                     (''suggested_resume_edits'', PNone)])))
     pydantic_v2 example_score_request \<noteq>
   Inr \<lparr>match_score = 80, top_keywords = [], missing_or_weak_keywords = [],
        suggested_resume_edits = ''''\<rparr>"
  using null_field_is_rejected
    [of "stub_provider ''{}''
        (Inr (PDict [(''match_score'', PInt 80), (''top_keywords'', PList []),
                     (''missing_or_weak_keywords'', PList []),
                     (''suggested_resume_edits'', PNone)]))"
      example_score_request
      "[(''match_score'', PInt 80), (''top_keywords'', PList []),
        (''missing_or_weak_keywords'', PList []), (''suggested_resume_edits'', PNone)]"
      "PInt 80" "PList []" "PList []" PNone pydantic_v2]
  by (simp add: stub_gateway del: py_float.simps)

text \<open>
  Claim C9. With the four keys present and \<^verbatim>\<open>match_score\<close> the string \<^verbatim>\<open>"high"\<close>,
  \<^verbatim>\<open>float\<close> raises \<^verbatim>\<open>ValueError\<close>, and this exception leaves the handler as it is:
  it is not an \<^verbatim>\<open>HTTPException\<close>.
\<close>

theorem match_score_high_raises:
  "list_all (\<lambda>k. map_of [(''match_score'', PStr ''high''), (''top_keywords'', PList []),
                          (''missing_or_weak_keywords'', PList []),
                          (''suggested_resume_edits'', PStr '''')] k \<noteq> None) required_keys \<and>
   py_float (PStr ''high'') = Inl ValueError \<and>
   score_resume
     (stub_provider ''{}''
        (Inr (PDict [(''match_score'', PStr ''high''), (''top_keywords'', PList []),
                     (''missing_or_weak_keywords'', PList []),
                     (''suggested_resume_edits'', PStr '''')])))
     lax payload = Inl ValueError"
proof -
  have f: "py_float (PStr ''high'') = Inl ValueError" by code_simp
  show ?thesis
    using f
    by (simp add: score_resume_def stub_gateway score_resume_data_def required_keys_def
        del: py_float.simps)
qed

end
